theory Spec2Isabelle
  imports Complex_Main "HOL-Library.Multiset"
begin

section \<open>Conventions of the embedding\<close>

text \<open>
  The components are React function components written in TypeScript. Each
  \<^verbatim>\<open>useMemo\<close> body and each event handler is a function of the component state it
  reads, and is embedded as a HOL function of that state.

  \<^item> A JavaScript \<^verbatim>\<open>number\<close> that takes part in the statistics (click counts,
    percentages, mean, deviation, threshold) is a \<^typ>\<open>real\<close>: the arithmetic is the
    exact one, IEEE rounding, NaN and the infinities are outside the model (the one
    place where the source produces an infinity, \<^verbatim>\<open>Math.max()\<close> of nothing, has a
    type of its own below).
  \<^item> Minute indices, identifiers and millisecond timestamps are \<^typ>\<open>int\<close>.
  \<^item> \<^verbatim>\<open>Date.parse\<close> is a parameter \<open>parse\<close> of the functions that call it, from
    the timestamp string to milliseconds.
  \<^item> A \<^verbatim>\<open>fetch\<close> is an effect: handlers return the list of effects they perform,
    in order, and take the server's answer as an argument.
\<close>

section \<open>Sessions as the components see them\<close>

text \<open>TypeScript interfaces are structural: App passes its \<^verbatim>\<open>BackendSession\<close> where
  TADashboard expects its smaller \<^verbatim>\<open>Session\<close>. Record extension gives the same:
  a function on \<open>'a Session_scheme\<close> accepts every record with at least these fields.
  The three fields every variant has come first.\<close>

record SessionCore =
  session_id :: int
  session_code :: string
  course_name :: string

text \<open>\<^verbatim>\<open>Session\<close> of TADashboard.tsx (lines 17-23).\<close>

record Session = SessionCore +
  duration_minutes :: int
  start_time :: string

text \<open>\<^verbatim>\<open>Session\<close> of StudentView.tsx (lines 8-13).\<close>

record StudentSession = SessionCore +
  anon_id :: int

section \<open>Bins and chart data\<close>

text \<open>The \<^verbatim>\<open>BinRecord\<close> interface of SummaryReport.tsx; TADashboard.tsx reads the same
  fields from its untyped \<^verbatim>\<open>bins\<close>.\<close>

record BinRecord =
  bin_start_minute :: int
  bin_end_minute :: int
  click_count :: real
  unique_students :: real
  percentage :: real

text \<open>Decimal rendering of an integer inside a template literal.\<close>

definition digit_char :: "nat \<Rightarrow> char" where
  "digit_char d = ''0123456789'' ! d"

fun show_nat :: "nat \<Rightarrow> string" where
  "show_nat n = (if n < 10 then [digit_char n] else show_nat (n div 10) @ [digit_char (n mod 10)])"

definition show_int :: "int \<Rightarrow> string" where
  "show_int i = (if i < 0 then CHR ''-'' # show_nat (nat (- i)) else show_nat (nat i))"

text \<open>The elements of \<^verbatim>\<open>chartData\<close> (TADashboard.tsx, lines 57-63).\<close>

record chart_point =
  minute :: int
  count :: real
  label :: string

definition chartData :: "BinRecord list \<Rightarrow> chart_point list" where
  "chartData bins =
     map (\<lambda>b. \<lparr> minute = bin_start_minute b,
                count = click_count b,
                label = show_int (bin_start_minute b) @ ''-'' @ show_int (bin_end_minute b) \<rparr>) bins"

section \<open>TADashboard: the confusion statistics\<close>

text \<open>The object returned by the \<^verbatim>\<open>stats\<close> memo (TADashboard.tsx, lines 65-84).
  \<^verbatim>\<open>reduce(f, 0)\<close> is a left fold from 0; \<^verbatim>\<open>counts.length ? a : b\<close> tests the
  length against 0.\<close>

record stats_result =
  totalClicks :: nat
  uniqueStudents :: int
  mean :: real
  stdDev :: real
  threshold :: real
  peakBins :: "chart_point list"

definition stats :: "chart_point list \<Rightarrow> 'c list \<Rightarrow> int \<Rightarrow> stats_result" where
  "stats chart clicks totalStudents =
     (let counts = map chart_point.count chart;
          mean = (if length counts \<noteq> 0
                  then foldl (\<lambda>a b. a + b) 0 counts / real (length counts) else 0);
          variance = (if length counts \<noteq> 0
                      then foldl (\<lambda>sum val. sum + (val - mean) ^ 2) 0 counts / real (length counts)
                      else 0);
          stdDev = sqrt variance;
          threshold = mean + 1.2 * stdDev;
          uniqueStudents = totalStudents
      in \<lparr> totalClicks = length clicks,
           uniqueStudents = uniqueStudents,
           mean = mean,
           stdDev = stdDev,
           threshold = threshold,
           peakBins = filter (\<lambda>d. chart_point.count d \<ge> threshold) chart \<rparr>)"

section \<open>SummaryReport: the summary memo and what is rendered from it\<close>

text \<open>\<^verbatim>\<open>SessionMeta\<close> (SummaryReport.tsx, lines 23-30): the dashboard's session and
  the instructor's name.\<close>

record SessionMeta = Session +
  ta_name :: string

text \<open>The elements of \<^verbatim>\<open>data\<close>: the chart fields and two more.\<close>

record summary_point = chart_point +
  uniqueStudents :: real
  percentage :: real

record summary_result =
  data :: "summary_point list"
  threshold :: real
  totalStudents :: int

text \<open>The \<^verbatim>\<open>summary\<close> memo (lines 77-102): \<^verbatim>\<open>null\<close> until the session has loaded.
  The argument \<open>students\<close> is the state variable \<^verbatim>\<open>totalStudents\<close>.\<close>

definition summary :: "SessionMeta option \<Rightarrow> BinRecord list \<Rightarrow> int \<Rightarrow> summary_result option" where
  "summary session bins students =
     (case session of
        None \<Rightarrow> None
      | Some _ \<Rightarrow>
         (let data = map (\<lambda>b. \<lparr> minute = bin_start_minute b,
                                count = click_count b,
                                label = show_int (bin_start_minute b) @ ''-'' @ show_int (bin_end_minute b),
                                uniqueStudents = unique_students b,
                                percentage = BinRecord.percentage b \<rparr>) bins;
              counts = map chart_point.count data;
              mean = (if length counts \<noteq> 0
                      then foldl (\<lambda>a b. a + b) 0 counts / real (length counts) else 0);
              variance = (if length counts \<noteq> 0
                          then foldl (\<lambda>sum val. sum + (val - mean) ^ 2) 0 counts / real (length counts)
                          else 0);
              stdDev = sqrt variance;
              threshold = mean + 1.2 * stdDev
          in Some \<lparr> data = data, threshold = threshold, totalStudents = students \<rparr>))"

text \<open>The status column of the interval table (lines 201-217) and the bar colour
  (line 178) test the same condition.\<close>

definition high :: "summary_result \<Rightarrow> summary_point \<Rightarrow> bool" where
  "high s d = (chart_point.count d \<ge> summary_result.threshold s)"

datatype status_badge = High | Normal | Clear

definition status :: "summary_result \<Rightarrow> summary_point \<Rightarrow> status_badge" where
  "status s d = (if high s d then High else if chart_point.count d > 0 then Normal else Clear)"

text \<open>The Key Insights card (lines 229-252): the peaks, or the message that there are
  none.\<close>

datatype insights = Peaks "summary_point list" | NoSpikes

definition keyInsights :: "summary_result \<Rightarrow> insights" where
  "keyInsights s =
     (if list_ex (\<lambda>d. chart_point.count d \<ge> summary_result.threshold s) (data s)
      then Peaks (filter (\<lambda>d. chart_point.count d \<ge> summary_result.threshold s) (data s))
      else NoSpikes)"

text \<open>The Peak Confusion tile (lines 155-160) shows
  \<^verbatim>\<open>Math.max(...summary.data.map(d => d.percentage))\<close>. \<^verbatim>\<open>Math.max\<close> starts from
  minus infinity and replaces the running value by each argument that is greater; with
  no argument it returns minus infinity. Its result therefore has one value more than
  the reals. The formatting of the tile (\<^verbatim>\<open>toFixed(0)\<close> and the percent sign) is not
  part of the model.\<close>

datatype ext_num = NegInfinity | Finite real

fun ext_less :: "ext_num \<Rightarrow> ext_num \<Rightarrow> bool" where
  "ext_less NegInfinity (Finite _) = True"
| "ext_less (Finite a) (Finite b) = (a < b)"
| "ext_less _ NegInfinity = False"

definition Math_max :: "real list \<Rightarrow> ext_num" where
  "Math_max values =
     foldl (\<lambda>highest x. if ext_less highest (Finite x) then Finite x else highest) NegInfinity values"

definition peakConfusion :: "summary_result \<Rightarrow> ext_num" where
  "peakConfusion s = Math_max (map summary_point.percentage (data s))"

section \<open>TADashboard: the notes\<close>

text \<open>\<^verbatim>\<open>NoteRecord\<close> (SummaryReport.tsx, lines 32-36; TADashboard.tsx reads the same
  fields). The field \<^verbatim>\<open>note\<close> is \<open>note_text\<close> here.\<close>

record NoteRecord =
  anon_id :: int
  note_text :: string
  created_at :: string

text \<open>A note with its \<^verbatim>\<open>minutesElapsed\<close>: the object spread \<^verbatim>\<open>{...n, minutesElapsed}\<close>.\<close>

record annotated_note = NoteRecord +
  minutesElapsed :: int

text \<open>The \<^verbatim>\<open>notesWithTimestamps\<close> memo (TADashboard.tsx, lines 86-95).
  \<^verbatim>\<open>Array.prototype.sort\<close> with the comparator \<^verbatim>\<open>a.minutesElapsed - b.minutesElapsed\<close>
  is a stable sort on that key, as \<^const>\<open>sort_key\<close> is. Both timestamps are
  taken to parse: \<open>parse\<close> is total.\<close>

definition notesWithTimestamps ::
  "(string \<Rightarrow> int) \<Rightarrow> 'a Session_scheme \<Rightarrow> NoteRecord list \<Rightarrow> annotated_note list" where
  "notesWithTimestamps parse session notes =
     (let start = parse (start_time session)
      in sort_key minutesElapsed
           (map (\<lambda>n. \<lparr> anon_id = anon_id n,
                       note_text = note_text n,
                       created_at = created_at n,
                       minutesElapsed = \<lfloor>real_of_int (parse (created_at n) - start) / 60000\<rfloor> \<rparr>)
                notes))"

section \<open>Effects of the event handlers\<close>

text \<open>What a handler does to the world, in order: a \<^verbatim>\<open>fetch\<close> with its method, URL
  and body, an \<^verbatim>\<open>alert\<close>, a \<^verbatim>\<open>console.error\<close>, a \<^verbatim>\<open>setTimeout\<close>, and the
  callbacks of the parent component. \<open>'d\<close> is the JSON object that a successful join
  returns.\<close>

datatype request_body =
    NoBody
  | AnonId int
  | AnonIdNote int string
  | CreateSession string string "int option" string

datatype http_method = POST | PUT

text \<open>\<^verbatim>\<open>BackendSession\<close> of SessionCreator.tsx (lines 8-17).\<close>

record BackendSession = SessionMeta +
  recitation_date :: string
  end_time :: string

datatype 'd effect =
    Fetch http_method string request_body
  | Alert string
  | ConsoleError
  | SetTimeout nat
  | OnJoinSuccess 'd
  | OnCreateSession BackendSession
  | OnConfusionClick int

text \<open>What awaiting a \<^verbatim>\<open>fetch\<close> and the \<^verbatim>\<open>json()\<close> of its response gives: an exception
  with its message, or the \<^verbatim>\<open>ok\<close> flag and the decoded body.\<close>

datatype 'b fetch_result = Failed string | Response bool 'b

section \<open>JoinSession\<close>

text \<open>The state of the component (part_000, lines 21-22).\<close>

record join_state =
  code :: string
  error :: string

definition join_initial :: join_state where
  "join_initial = \<lparr> code = '''', error = '''' \<rparr>"

text \<open>\<^verbatim>\<open>\D\<close> matches every character other than the ten decimal digits.\<close>

definition is_digit :: "char \<Rightarrow> bool" where
  "is_digit c = (c \<in> set ''0123456789'')"

text \<open>\<^verbatim>\<open>handleInputChange\<close> (lines 53-57), on the new text of the input field.\<close>

definition handleInputChange :: "string \<Rightarrow> join_state \<Rightarrow> join_state" where
  "handleInputChange target_value st =
     (let value = take 4 (filter is_digit target_value)
      in st\<lparr> code := value, error := '''' \<rparr>)"

text \<open>\<^verbatim>\<open>handleSubmit\<close> (lines 24-51). The second argument is what the \<^verbatim>\<open>fetch\<close> gives
  if it is made. The dash of the last message is U+2014, here in its UTF-8 bytes.\<close>

definition join_url :: "string \<Rightarrow> string" where
  "join_url c = ''https://crowdqa-hxre.onrender.com/api/sessions/'' @ c @ ''/join''"

definition handleSubmit :: "join_state \<Rightarrow> 'd fetch_result \<Rightarrow> join_state \<times> 'd effect list" where
  "handleSubmit st0 res =
     (let st = st0\<lparr> error := '''' \<rparr>
      in if length (code st) \<noteq> 4
         then (st\<lparr> error := ''Session code must be 4 digits'' \<rparr>, [])
         else (case res of
                 Failed _ \<Rightarrow>
                   (st\<lparr> error := ''Server error '' @ [CHR 0xE2, CHR 0x80, CHR 0x94] @ '' please try again'' \<rparr>,
                    [Fetch POST (join_url (code st)) NoBody, ConsoleError])
               | Response ok d \<Rightarrow>
                   if \<not> ok
                   then (st\<lparr> error := ''Invalid or expired session code'' \<rparr>,
                         [Fetch POST (join_url (code st)) NoBody])
                   else (st, [Fetch POST (join_url (code st)) NoBody, OnJoinSuccess d])))"

text \<open>The submit button (lines 93-101).\<close>

definition join_button_disabled :: "join_state \<Rightarrow> bool" where
  "join_button_disabled st = (length (code st) \<noteq> 4)"

text \<open>The component over time: the user edits the field or submits the form.\<close>

datatype 'd join_event = InputChange string | Submit "'d fetch_result"

fun join_step :: "join_state \<times> 'd effect list \<Rightarrow> 'd join_event \<Rightarrow> join_state \<times> 'd effect list" where
  "join_step (st, sent) (InputChange v) = (handleInputChange v st, sent)"
| "join_step (st, sent) (Submit res) = (let (st', effs) = handleSubmit st res in (st', sent @ effs))"

definition join_run :: "'d join_event list \<Rightarrow> join_state \<times> 'd effect list" where
  "join_run events = foldl join_step (join_initial, []) events"

section \<open>StudentView\<close>

text \<open>The state of the component (lines 27-29); the state variable \<^verbatim>\<open>note\<close> is
  \<open>note_draft\<close> here.\<close>

record student_state =
  note_draft :: string
  showFeedback :: bool
  active :: bool

text \<open>The initial state (lines 26-29): the property \<^verbatim>\<open>isSessionActive\<close> is optional and
  defaults to \<^verbatim>\<open>true\<close>.\<close>

definition student_initial :: "bool option \<Rightarrow> student_state" where
  "student_initial isSessionActive =
     \<lparr> note_draft = '''', showFeedback = False,
       active = (case isSessionActive of None \<Rightarrow> True | Some b \<Rightarrow> b) \<rparr>"

text \<open>One round of the poll (lines 34-46): the body of the response is its \<^verbatim>\<open>is_active\<close>
  field when that is a boolean.\<close>

definition check :: "student_state \<Rightarrow> (bool option) fetch_result \<Rightarrow> student_state" where
  "check st res =
     (case res of
        Failed _ \<Rightarrow> st
      | Response ok is_active \<Rightarrow>
          if \<not> ok then st
          else (case is_active of Some b \<Rightarrow> st\<lparr> active := b \<rparr> | None \<Rightarrow> st))"

text \<open>\<^verbatim>\<open>String.prototype.trim\<close> removes white space and line terminators from both
  ends: U+0009 to U+000D, U+0020, U+00A0, U+1680, U+2000 to U+200A, U+2028, U+2029,
  U+202F, U+205F, U+3000 and U+FEFF. Text is held here in UTF-8, as the dash of the
  join form's message is, so each of them is a sequence of one to three bytes.\<close>

definition white_space :: "string list" where
  "white_space =
     [[CHR 0x09], [CHR 0x0A], [CHR 0x0B], [CHR 0x0C], [CHR 0x0D], [CHR 0x20],
      [CHR 0xC2, CHR 0xA0],
      [CHR 0xE1, CHR 0x9A, CHR 0x80],
      [CHR 0xE2, CHR 0x80, CHR 0x80], [CHR 0xE2, CHR 0x80, CHR 0x81], [CHR 0xE2, CHR 0x80, CHR 0x82],
      [CHR 0xE2, CHR 0x80, CHR 0x83], [CHR 0xE2, CHR 0x80, CHR 0x84], [CHR 0xE2, CHR 0x80, CHR 0x85],
      [CHR 0xE2, CHR 0x80, CHR 0x86], [CHR 0xE2, CHR 0x80, CHR 0x87], [CHR 0xE2, CHR 0x80, CHR 0x88],
      [CHR 0xE2, CHR 0x80, CHR 0x89], [CHR 0xE2, CHR 0x80, CHR 0x8A],
      [CHR 0xE2, CHR 0x80, CHR 0xA8], [CHR 0xE2, CHR 0x80, CHR 0xA9], [CHR 0xE2, CHR 0x80, CHR 0xAF],
      [CHR 0xE2, CHR 0x81, CHR 0x9F],
      [CHR 0xE3, CHR 0x80, CHR 0x80],
      [CHR 0xEF, CHR 0xBB, CHR 0xBF]]"

text \<open>Removing from the front every leading sequence that is in \<open>ws\<close>; at the end the
  same on the reversed text with the reversed sequences.\<close>

fun strip_start :: "string list \<Rightarrow> string \<Rightarrow> string" where
  "strip_start ws [] = []"
| "strip_start ws (a # s) =
     (if [a] \<in> set ws then strip_start ws s
      else (case s of
              [] \<Rightarrow> a # s
            | b # s' \<Rightarrow>
                if [a, b] \<in> set ws then strip_start ws s'
                else (case s' of
                        [] \<Rightarrow> a # s
                      | c # s'' \<Rightarrow> if [a, b, c] \<in> set ws then strip_start ws s'' else a # s)))"

definition trim :: "string \<Rightarrow> string" where
  "trim s = rev (strip_start (map rev white_space) (rev (strip_start white_space s)))"

text \<open>The body of the answer to a click: \<^verbatim>\<open>error\<close> and \<^verbatim>\<open>student_click_count\<close>.\<close>

record click_data =
  error_message :: "string option"
  student_click_count :: int

definition click_url :: "int \<Rightarrow> string" where
  "click_url sid = ''http://localhost:3001/api/sessions/'' @ show_int sid @ ''/click''"

definition notes_url :: "int \<Rightarrow> string" where
  "notes_url sid = ''http://localhost:3001/api/sessions/'' @ show_int sid @ ''/notes''"

text \<open>\<^verbatim>\<open>a || b\<close> on strings: the empty string and a missing value give \<open>b\<close>.\<close>

definition or_else :: "string option \<Rightarrow> string \<Rightarrow> string" where
  "or_else a b = (case a of None \<Rightarrow> b | Some m \<Rightarrow> if m = '''' then b else m)"

text \<open>\<^verbatim>\<open>handleConfusionClick\<close> (lines 57-110). The third and fourth arguments are what
  the two \<^verbatim>\<open>fetch\<close>es give if they are made; the status of the second is not read.\<close>

definition handleConfusionClick ::
  "student_state \<Rightarrow> 'a StudentSession_scheme \<Rightarrow> click_data fetch_result \<Rightarrow> unit fetch_result
     \<Rightarrow> student_state \<times> 'd effect list" where
  "handleConfusionClick st session clickRes noteRes =
     (if \<not> active st
      then (st, [Alert ''Session is not active. You cannot submit feedback yet.''])
      else
        (let click = Fetch POST (click_url (session_id session)) (AnonId (StudentSession.anon_id session));
             caught = (\<lambda>message. [ConsoleError, Alert (or_else (Some message) ''Error sending feedback'')])
         in case clickRes of
              Failed message \<Rightarrow> (st, click # caught message)
            | Response ok clickData \<Rightarrow>
                if \<not> ok
                then (st, click # caught (or_else (error_message clickData) ''Server rejected click''))
                else
                  (let send_note = (trim (note_draft st) \<noteq> '''');
                       note_fetch = (if send_note
                                     then [Fetch POST (notes_url (session_id session))
                                             (AnonIdNote (StudentSession.anon_id session) (trim (note_draft st)))]
                                     else [])
                   in case (if send_note then noteRes else Response True ()) of
                        Failed message \<Rightarrow> (st, click # note_fetch @ caught message)
                      | Response _ _ \<Rightarrow>
                          (st\<lparr> showFeedback := True, note_draft := '''' \<rparr>,
                           click # note_fetch
                             @ [OnConfusionClick (student_click_count clickData), SetTimeout 2000]))))"

text \<open>The button (lines 145-156).\<close>

definition button_disabled :: "student_state \<Rightarrow> bool" where
  "button_disabled st = (\<not> active st)"

section \<open>SessionCreator: creating and starting the session\<close>

text \<open>The state of the component (SessionCreator.tsx, lines 25-30).\<close>

record creator_state =
  courseName :: string
  date :: string
  duration :: string
  taName :: string
  generatedSession :: "BackendSession option"
  copied :: bool

definition sessions_url :: string where
  "sessions_url = ''http://localhost:3001/api/sessions''"

text \<open>\<^verbatim>\<open>handleGenerate\<close> (lines 32-69). Three library functions are parameters:
  \<^verbatim>\<open>parseInt\<close>, with \<open>None\<close> for NaN; \<open>newDate\<close>, the time value of \<^verbatim>\<open>new Date(s)\<close>, with
  \<open>None\<close> for an invalid date; and \<^verbatim>\<open>toISOString\<close> on a time value, with \<open>None\<close> where
  it throws a RangeError (the value is outside the range of dates). An invalid date has
  no time value, so the end time is invalid when the start time or the duration is.
  The body of the answer is its \<^verbatim>\<open>session_id\<close> and \<^verbatim>\<open>session_code\<close>. The start time
  the form makes up is midnight UTC of the chosen date, the end time that plus the
  duration; when either has no ISO string the exception is caught like the others.\<close>

definition handleGenerate ::
  "(string \<Rightarrow> int option) \<Rightarrow> (string \<Rightarrow> int option) \<Rightarrow> (int \<Rightarrow> string option) \<Rightarrow> creator_state
     \<Rightarrow> (int \<times> string) fetch_result \<Rightarrow> creator_state \<times> 'd effect list" where
  "handleGenerate parseInt newDate toISOString st res =
     (let post = Fetch POST sessions_url
                   (CreateSession (courseName st) (date st) (parseInt (duration st)) (taName st));
          caught = [ConsoleError, Alert ''Error creating session.'']
      in case res of
           Failed _ \<Rightarrow> (st, post # caught)
         | Response ok d \<Rightarrow>
             if \<not> ok then (st, post # caught)
             else
               (let startTime = newDate (date st @ ''T00:00:00Z'');
                    endTime = (case (startTime, parseInt (duration st)) of
                                 (Some t, Some m) \<Rightarrow> Some (t + m * 60000)
                               | _ \<Rightarrow> None)
                in case (parseInt (duration st),
                         Option.bind startTime toISOString,
                         Option.bind endTime toISOString) of
                     (Some m, Some start_iso, Some end_iso) \<Rightarrow>
                       (st\<lparr> generatedSession := Some
                              \<lparr> session_id = fst d,
                                session_code = snd d,
                                course_name = courseName st,
                                duration_minutes = m,
                                start_time = start_iso,
                                ta_name = taName st,
                                recitation_date = date st,
                                end_time = end_iso \<rparr> \<rparr>,
                        [post])
                   | _ \<Rightarrow> (st, post # caught)))"



section \<open>App: from the creator form to the dashboard\<close>

text \<open>The views of App and the part of its state that the instructor's flow uses
  (part_001, lines 9-15 and 38-50).\<close>

datatype View = Home | StudentJoin | StudentActive | TaCreate | TaDashboard | TaSummary






section \<open>The session registry\<close>










section \<open>Invariants\<close>

text \<open>Of the join form and the requests it has sent: the code is at most four digits,
  and every request sent is a POST, without body, to the join URL of a four-digit
  code.\<close>

definition join_inv :: "join_state \<times> 'd effect list \<Rightarrow> bool" where
  "join_inv p \<longleftrightarrow>
     length (code (fst p)) \<le> 4 \<and> (\<forall>c \<in> set (code (fst p)). is_digit c)
     \<and> (\<forall>e \<in> set (snd p). \<forall>m u b. e = Fetch m u b \<longrightarrow>
           (\<exists>c. u = join_url c \<and> length c = 4 \<and> (\<forall>x \<in> set c. is_digit x) \<and> m = POST \<and> b = NoBody))"


section \<open>The statistics in the words of the specification\<close>

text \<open>Population mean and population standard deviation of a list of numbers: the sum
  over the number of elements, and the root of the mean squared distance to the mean
  (divisor \<open>n\<close>, not \<open>n - 1\<close>).\<close>

definition population_mean :: "real list \<Rightarrow> real" where
  "population_mean xs = sum_list xs / real (length xs)"

definition population_variance :: "real list \<Rightarrow> real" where
  "population_variance xs = (\<Sum>x\<leftarrow>xs. (x - population_mean xs) ^ 2) / real (length xs)"

definition population_std_dev :: "real list \<Rightarrow> real" where
  "population_std_dev xs = sqrt (population_variance xs)"

section \<open>Sample data for the worked instances\<close>

text \<open>A one-minute bin starting at minute \<open>k\<close> with \<open>c\<close> clicks of \<open>u\<close> students, who are
  \<open>p\<close> percent of the class; and the metadata of a session.\<close>

abbreviation (input) sample_bin :: "int \<Rightarrow> real \<Rightarrow> real \<Rightarrow> real \<Rightarrow> BinRecord" where
  "sample_bin k c u p \<equiv>
     \<lparr> bin_start_minute = k, bin_end_minute = k + 1, click_count = c,
       unique_students = u, percentage = p \<rparr>"

abbreviation (input) sample_meta :: SessionMeta where
  "sample_meta \<equiv>
     \<lparr> session_id = 7, session_code = ''4821'', course_name = ''CIS 1100'',
       duration_minutes = 60, start_time = ''2025-01-01T10:00:00.000Z'', ta_name = ''Ada'' \<rparr>"

text \<open>The values of \<^verbatim>\<open>Date.parse\<close> at four timestamps.\<close>

abbreviation (input) sample_parse :: "string \<Rightarrow> int" where
  "sample_parse \<equiv> (\<lambda>s. if s = ''2025-01-01T10:00:00.000Z'' then 1735725600000
                         else if s = ''2025-01-01T10:07:30.000Z'' then 1735726050000
                         else if s = ''2025-01-01T10:02:10.000Z'' then 1735725730000
                         else if s = ''2025-01-01T09:59:30.000Z'' then 1735725570000
                         else 0)"

text \<open>A student in that session; the registry's record of that session, not yet
  started; the creator form filled in for 1 January 2025 and 60 minutes, and App
  showing it; the library functions at the values these need; and an encoding of
  registry sessions as JSON that writes a start timestamp as \<^verbatim>\<open>toISOString\<close> does.\<close>

abbreviation (input) sample_student :: StudentSession where
  "sample_student \<equiv>
     \<lparr> session_id = 7, session_code = ''4821'', course_name = ''CIS 1100'', StudentSession.anon_id = 12 \<rparr>"












section \<open>Folds and sums\<close>

lemma foldl_add_sum_list: "foldl (\<lambda>a b. a + b) (a::real) xs = a + sum_list xs"
  by (induction xs arbitrary: a) simp_all

lemma foldl_sq_sum_list:
  "foldl (\<lambda>s v. s + (v - m) ^ 2) (a::real) xs = a + (\<Sum>x\<leftarrow>xs. (x - m) ^ 2)"
  by (induction xs arbitrary: a) simp_all

lemma counts_chartData: "map chart_point.count (chartData bins) = map click_count bins"
  by (simp add: chartData_def comp_def)

lemma chartData_Nil: "chartData bins = [] \<longleftrightarrow> bins = []"
  by (simp add: chartData_def)

lemma count_chartData_nth:
  "i < length bins \<Longrightarrow> chart_point.count (chartData bins ! i) = click_count (bins ! i)"
  by (simp add: chartData_def)

section \<open>The statistics of the dashboard and of the summary\<close>

lemma stats_mean:
  "mean (stats chart clicks ts) =
     (if chart = [] then 0 else population_mean (map chart_point.count chart))"
  by (simp add: stats_def Let_def foldl_add_sum_list population_mean_def)

lemma stats_stdDev:
  "stdDev (stats chart clicks ts) =
     (if chart = [] then 0 else population_std_dev (map chart_point.count chart))"
  by (simp add: stats_def Let_def foldl_add_sum_list foldl_sq_sum_list
      population_mean_def population_variance_def population_std_dev_def)

lemma stats_threshold:
  "stats_result.threshold (stats chart clicks ts) =
     mean (stats chart clicks ts) + 1.2 * stdDev (stats chart clicks ts)"
  by (simp add: stats_def Let_def)

lemma stats_peakBins:
  "peakBins (stats chart clicks ts) =
     filter (\<lambda>d. chart_point.count d \<ge> stats_result.threshold (stats chart clicks ts)) chart"
  by (simp add: stats_def Let_def)

lemma stats_threshold_pop:
  "stats_result.threshold (stats (chartData bins) clicks ts) =
     (if bins = [] then 0
      else population_mean (map click_count bins) + 1.2 * population_std_dev (map click_count bins))"
  by (simp add: stats_mean stats_stdDev stats_threshold counts_chartData chartData_Nil)

text \<open>The summary repeats the computation of the dashboard: its threshold is the
  dashboard's, whatever the dashboard's other inputs.\<close>

lemma summary_Some:
  "summary (Some m) bins n =
     Some \<lparr> data = map (\<lambda>b. \<lparr> minute = bin_start_minute b,
                                count = click_count b,
                                label = show_int (bin_start_minute b) @ ''-'' @ show_int (bin_end_minute b),
                                uniqueStudents = unique_students b,
                                percentage = BinRecord.percentage b \<rparr>) bins,
            threshold = stats_result.threshold (stats (chartData bins) ([]::unit list) 0),
            totalStudents = n \<rparr>"
  by (simp add: summary_def stats_def Let_def chartData_def comp_def)

text \<open>C1. For every list of bins the dashboard's mean is the population mean of the
  click counts, its stdDev their population standard deviation, and its threshold
  mean + 1.2 * stdDev; with no bins all three are 0. The summary's threshold is the
  same number.\<close>

theorem C1_confusion_statistics:
  "mean (stats (chartData bins) clicks ts) =
     (if bins = [] then 0 else population_mean (map click_count bins))
   \<and> stdDev (stats (chartData bins) clicks ts) =
     (if bins = [] then 0 else population_std_dev (map click_count bins))
   \<and> stats_result.threshold (stats (chartData bins) clicks ts) =
     (if bins = [] then 0
      else population_mean (map click_count bins) + 1.2 * population_std_dev (map click_count bins))
   \<and> map_option summary_result.threshold (summary (Some m) bins n) =
     Some (if bins = [] then 0
           else population_mean (map click_count bins) + 1.2 * population_std_dev (map click_count bins))"
  by (simp add: stats_mean stats_stdDev stats_threshold summary_Some counts_chartData chartData_Nil)

text \<open>Two bins with 0 and 2 clicks: mean 1, deviation 1, threshold 2.2.\<close>

theorem C1_confusion_statistics_witness:
  "mean (stats (chartData [sample_bin 0 0 0 0, sample_bin 1 2 2 50]) ([]::unit list) 4) = 1
   \<and> stdDev (stats (chartData [sample_bin 0 0 0 0, sample_bin 1 2 2 50]) ([]::unit list) 4) = 1
   \<and> stats_result.threshold (stats (chartData [sample_bin 0 0 0 0, sample_bin 1 2 2 50]) ([]::unit list) 4) = 11 / 5
   \<and> map_option summary_result.threshold
        (summary (Some sample_meta) [sample_bin 0 0 0 0, sample_bin 1 2 2 50] 4) = Some (11 / 5)"
  using C1_confusion_statistics [of "[sample_bin 0 0 0 0, sample_bin 1 2 2 50]" "[]::unit list" 4 sample_meta 4]
  by (simp add: population_mean_def population_std_dev_def population_variance_def)

text \<open>C2. The flagged bins are exactly the bins whose click count is greater than or
  equal to the computed threshold; a bin whose count equals the threshold is flagged.
  The summary marks a bin as high under the same inclusive comparison.\<close>

theorem C2_flag_peaks:
  "set (peakBins (stats (chartData bins) clicks ts))
     = {d \<in> set (chartData bins). stats_result.threshold (stats (chartData bins) clicks ts) \<le> chart_point.count d}
   \<and> (\<forall>d \<in> set (chartData bins).
         chart_point.count d = stats_result.threshold (stats (chartData bins) clicks ts)
           \<longrightarrow> d \<in> set (peakBins (stats (chartData bins) clicks ts)))
   \<and> (\<forall>s. summary (Some m) bins n = Some s \<longrightarrow>
         (\<forall>d \<in> set (data s).
            high s d \<longleftrightarrow> stats_result.threshold (stats (chartData bins) clicks ts) \<le> chart_point.count d))"
proof (intro conjI allI impI ballI)
  show "set (peakBins (stats (chartData bins) clicks ts))
     = {d \<in> set (chartData bins). stats_result.threshold (stats (chartData bins) clicks ts) \<le> chart_point.count d}"
    by (simp add: stats_peakBins)
next
  fix d assume "d \<in> set (chartData bins)"
    and "chart_point.count d = stats_result.threshold (stats (chartData bins) clicks ts)"
  then show "d \<in> set (peakBins (stats (chartData bins) clicks ts))"
    by (simp add: stats_peakBins)
next
  fix s d assume "summary (Some m) bins n = Some s"
  then have "summary_result.threshold s = stats_result.threshold (stats (chartData bins) clicks ts)"
    by (auto simp add: summary_Some stats_threshold_pop)
  then show "high s d \<longleftrightarrow> stats_result.threshold (stats (chartData bins) clicks ts) \<le> chart_point.count d"
    by (simp add: high_def)
qed

text \<open>Two bins with 2 clicks each: the threshold is 2, and the first bin, exactly at
  the threshold, is flagged.\<close>

theorem C2_flag_peaks_witness:
  "chart_point.count (chartData [sample_bin 0 2 2 50, sample_bin 1 2 2 50] ! 0)
     = stats_result.threshold (stats (chartData [sample_bin 0 2 2 50, sample_bin 1 2 2 50]) ([]::unit list) 4)
   \<and> chartData [sample_bin 0 2 2 50, sample_bin 1 2 2 50] ! 0
       \<in> set (peakBins (stats (chartData [sample_bin 0 2 2 50, sample_bin 1 2 2 50]) ([]::unit list) 4))"
proof -
  let ?bins = "[sample_bin 0 2 2 50, sample_bin 1 2 2 50]"
  have t: "stats_result.threshold (stats (chartData ?bins) ([]::unit list) 4) = 2"
    by (simp add: stats_def chartData_def Let_def)
  have c: "chart_point.count (chartData ?bins ! 0) = 2"
    by (simp add: chartData_def)
  have m: "chartData ?bins ! 0 \<in> set (chartData ?bins)"
    by (simp add: chartData_def)
  from C2_flag_peaks [of ?bins "[]::unit list" 4 sample_meta 4] m c t
  have "chartData ?bins ! 0 \<in> set (peakBins (stats (chartData ?bins) ([]::unit list) 4))"
    by simp
  with c t show ?thesis by simp
qed

section \<open>Equal counts\<close>

lemma sum_list_const:
  fixes xs :: "real list"
  shows "\<forall>x \<in> set xs. x = c \<Longrightarrow> sum_list xs = real (length xs) * c"
  by (induction xs) (simp_all add: algebra_simps)

lemma population_mean_const:
  assumes "xs \<noteq> []" and "\<forall>x \<in> set xs. x = c"
  shows "population_mean xs = c"
  using assms by (simp add: population_mean_def sum_list_const)

lemma population_std_dev_const:
  assumes "xs \<noteq> []" and "\<forall>x \<in> set xs. x = c"
  shows "population_std_dev xs = 0"
proof -
  have "map (\<lambda>x. (x - population_mean xs) ^ 2) xs = map (\<lambda>x. 0) xs"
    using assms by (simp add: population_mean_const)
  then have "(\<Sum>x\<leftarrow>xs. (x - population_mean xs) ^ 2) = (\<Sum>x\<leftarrow>xs. 0)"
    by (rule arg_cong)
  then show ?thesis
    by (simp add: population_std_dev_def population_variance_def)
qed

text \<open>C3, as the code has it. If there is at least one bin and all bins have the same
  click count, the deviation is 0, the threshold equals the mean, which is that count,
  and every bin is flagged, whether the count is zero or not: the dashboard's peaks are
  all the bins, and the summary lists every bin as a peak and marks every bin high.\<close>

theorem C3_equal_counts:
  assumes ne: "bins \<noteq> []" and eq: "\<forall>b \<in> set bins. click_count b = c"
  shows "stdDev (stats (chartData bins) clicks ts) = 0
       \<and> stats_result.threshold (stats (chartData bins) clicks ts) = mean (stats (chartData bins) clicks ts)
       \<and> mean (stats (chartData bins) clicks ts) = c
       \<and> peakBins (stats (chartData bins) clicks ts) = chartData bins
       \<and> (\<forall>s. summary (Some m) bins n = Some s \<longrightarrow>
             keyInsights s = Peaks (data s) \<and> (\<forall>d \<in> set (data s). status s d = High))"
proof -
  let ?st = "stats (chartData bins) clicks ts"
  have cs: "map click_count bins \<noteq> []" "\<forall>x \<in> set (map click_count bins). x = c"
    using ne eq by auto
  have sd: "stdDev ?st = 0"
    using ne by (simp add: stats_stdDev counts_chartData chartData_Nil population_std_dev_const [OF cs])
  have mn: "mean ?st = c"
    using ne by (simp add: stats_mean counts_chartData chartData_Nil population_mean_const [OF cs])
  have th: "stats_result.threshold ?st = c"
    by (simp add: stats_threshold sd mn)
  have all: "\<forall>d \<in> set (chartData bins). chart_point.count d = c"
    using eq by (auto simp add: chartData_def)
  have pk: "peakBins ?st = chartData bins"
    unfolding stats_peakBins th using all by (simp add: filter_id_conv)
  have sm: "keyInsights s = Peaks (data s) \<and> (\<forall>d \<in> set (data s). status s d = High)"
    if s: "summary (Some m) bins n = Some s" for s
  proof -
    from s have t: "summary_result.threshold s = c"
      using th by (auto simp add: summary_Some stats_threshold_pop)
    from s have d: "\<forall>d \<in> set (data s). chart_point.count d = c" "data s \<noteq> []"
      using eq ne by (auto simp add: summary_Some)
    then obtain x where "x \<in> set (data s)" by (cases "data s") auto
    with d t show ?thesis
      by (auto simp add: keyInsights_def status_def high_def list_ex_iff filter_id_conv)
  qed
  show ?thesis using sd mn th pk sm by simp
qed

text \<open>Three bins with 4 clicks each: threshold 4, all three flagged.\<close>

theorem C3_equal_counts_witness:
  "[sample_bin 0 4 2 50, sample_bin 1 4 3 75, sample_bin 2 4 1 25] \<noteq> []
   \<and> click_count (sample_bin 0 4 2 50) = 4 \<and> click_count (sample_bin 1 4 3 75) = 4
   \<and> click_count (sample_bin 2 4 1 25) = 4
   \<and> stats_result.threshold
        (stats (chartData [sample_bin 0 4 2 50, sample_bin 1 4 3 75, sample_bin 2 4 1 25]) ([]::unit list) 4) = 4
   \<and> peakBins (stats (chartData [sample_bin 0 4 2 50, sample_bin 1 4 3 75, sample_bin 2 4 1 25]) ([]::unit list) 4)
       = chartData [sample_bin 0 4 2 50, sample_bin 1 4 3 75, sample_bin 2 4 1 25]"
  using C3_equal_counts [of "[sample_bin 0 4 2 50, sample_bin 1 4 3 75, sample_bin 2 4 1 25]" 4
      "[]::unit list" 4 sample_meta 4]
  by simp

text \<open>The claim as the specification words it fails: in a session of two bins with no
  click at all, both bins are flagged.\<close>

theorem C3_zero_clicks_counterexample:
  "peakBins (stats (chartData [sample_bin 0 0 0 0, sample_bin 1 0 0 0]) ([]::unit list) 3)
     = chartData [sample_bin 0 0 0 0, sample_bin 1 0 0 0]
   \<and> peakBins (stats (chartData [sample_bin 0 0 0 0, sample_bin 1 0 0 0]) ([]::unit list) 3) \<noteq> []"
  by (simp add: stats_def chartData_def Let_def)

section \<open>Raising the count of one bin\<close>

text \<open>How sum, mean and variance of a list of numbers move when one element grows by
  \<open>d\<close>.\<close>

lemma sum_list_update_real:
  fixes xs :: "real list"
  shows "i < length xs \<Longrightarrow> sum_list (xs[i := v]) = sum_list xs + v - xs ! i"
proof (induction xs arbitrary: i)
  case Nil
  then show ?case by simp
next
  case (Cons x xs)
  then show ?case by (cases i) simp_all
qed

lemma sum_sq_update:
  fixes xs :: "real list"
  assumes "i < length xs"
  shows "(\<Sum>x\<leftarrow>xs[i := v]. x ^ 2) = (\<Sum>x\<leftarrow>xs. x ^ 2) + v ^ 2 - (xs ! i) ^ 2"
proof -
  have "map (\<lambda>x. x ^ 2) (xs[i := v]) = (map (\<lambda>x. x ^ 2) xs)[i := v ^ 2]"
    by (simp add: map_update)
  then show ?thesis
    using assms sum_list_update_real [of i "map (\<lambda>x. x ^ 2) xs" "v ^ 2"] by simp
qed

lemma sum_dev_sq:
  fixes xs :: "real list"
  shows "(\<Sum>x\<leftarrow>xs. (x - m) ^ 2) = (\<Sum>x\<leftarrow>xs. x ^ 2) - 2 * m * sum_list xs + real (length xs) * m ^ 2"
  by (induction xs) (simp_all add: power2_eq_square algebra_simps)

lemma population_variance_alt:
  assumes "xs \<noteq> []"
  shows "population_variance xs = (\<Sum>x\<leftarrow>xs. x ^ 2) / real (length xs) - (population_mean xs) ^ 2"
proof -
  have n: "real (length xs) > 0" using assms by simp
  have s: "sum_list xs = real (length xs) * population_mean xs"
    using n by (simp add: population_mean_def)
  show ?thesis
    unfolding population_variance_def sum_dev_sq [of "population_mean xs" xs] s
    using n by (simp add: field_simps power2_eq_square)
qed

lemma population_variance_nonneg: "0 \<le> population_variance xs"
  unfolding population_variance_def
  by (intro divide_nonneg_nonneg sum_list_nonneg) auto

lemma population_mean_update:
  assumes "i < length xs"
  shows "population_mean (xs[i := xs ! i + d]) = population_mean xs + d / real (length xs)"
  using assms by (simp add: population_mean_def sum_list_update_real add_divide_distrib)

lemma population_variance_update:
  assumes "i < length xs"
  shows "population_variance (xs[i := xs ! i + d]) =
           population_variance xs
           + 2 * d * (xs ! i - population_mean xs) / real (length xs)
           + d ^ 2 * (real (length xs) - 1) / (real (length xs)) ^ 2"
proof -
  from assms have "0 < length xs" by linarith
  then have ne: "xs \<noteq> []" "xs[i := xs ! i + d] \<noteq> []" by simp_all
  have n: "real (length xs) > 0" using ne by simp
  show ?thesis
    unfolding population_variance_alt [OF ne(1)] population_variance_alt [OF ne(2)]
      population_mean_update [OF assms] sum_sq_update [OF assms]
    using n by (simp add: field_simps power2_eq_square)
qed


lemma population_std_dev_nonneg: "0 \<le> population_std_dev xs"
  by (simp add: population_std_dev_def population_variance_nonneg)

lemma threshold_mono_above_mean:
  assumes i: "i < length xs" and d: "0 \<le> d" and above: "population_mean xs \<le> xs ! i"
  shows "population_mean xs + 1.2 * population_std_dev xs
           \<le> population_mean (xs[i := xs ! i + d]) + 1.2 * population_std_dev (xs[i := xs ! i + d])"
proof -
  let ?n = "real (length xs)"
  have n: "1 \<le> ?n" using i by simp
  have m: "population_mean xs \<le> population_mean (xs[i := xs ! i + d])"
    using n d by (simp add: population_mean_update [OF i])
  have "0 \<le> 2 * d * (xs ! i - population_mean xs) / ?n"
    using n d above by simp
  moreover have "0 \<le> d ^ 2 * (?n - 1) / ?n ^ 2"
    using n by simp
  ultimately have "population_variance xs \<le> population_variance (xs[i := xs ! i + d])"
    unfolding population_variance_update [OF i] by linarith
  then have "population_std_dev xs \<le> population_std_dev (xs[i := xs ! i + d])"
    by (simp add: population_std_dev_def)
  with m show ?thesis by simp
qed

lemma flag_kept_three_bins:
  assumes i: "i < length xs" and n3: "3 \<le> length xs" and d: "0 \<le> d"
    and flagged: "population_mean xs + 1.2 * population_std_dev xs \<le> xs ! i"
  shows "population_mean (xs[i := xs ! i + d]) + 1.2 * population_std_dev (xs[i := xs ! i + d])
           \<le> xs ! i + d"
proof -
  let ?n = "real (length xs)"
  let ?m = "population_mean xs"
  let ?V = "population_variance xs"
  define a where "a = xs ! i - ?m"
  define e where "e = d * (?n - 1) / ?n"
  have n: "3 \<le> ?n" using n3 by simp
  have sd: "0 \<le> sqrt ?V" by (simp add: population_variance_nonneg)
  have a: "1.2 * sqrt ?V \<le> a"
    using flagged by (simp add: a_def population_std_dev_def)
  then have a0: "0 \<le> a" using sd by linarith
  have e0: "0 \<le> e" using n d by (simp add: e_def)
  have "(1.2 * sqrt ?V) ^ 2 \<le> a ^ 2"
    using a sd by (intro power_mono) simp_all
  moreover have "(1.2 * sqrt ?V) ^ 2 = 1.44 * ?V"
  proof -
    have "(1.2 * sqrt ?V) ^ 2 = 1.2 ^ 2 * (sqrt ?V) ^ 2" by (rule power_mult_distrib)
    also have "(sqrt ?V) ^ 2 = ?V" by (simp add: population_variance_nonneg)
    also have "(1.2::real) ^ 2 = 1.44" by (simp add: power2_eq_square)
    finally show ?thesis .
  qed
  ultimately have aV: "1.44 * ?V \<le> a ^ 2" by linarith
  have ad: "0 \<le> a * d" using a0 d by simp
  have "1.44 * (2 * d * a / ?n) \<le> 2 * a * e"
  proof -
    have "1.44 * (2 * d * a / ?n) = (a * d) * (2.88 / ?n)" by simp
    also have "\<dots> \<le> (a * d) * (2 * (?n - 1) / ?n)"
      using n by (intro mult_left_mono [OF _ ad] divide_right_mono) simp_all
    also have "\<dots> = 2 * a * e" by (simp add: e_def)
    finally show ?thesis .
  qed
  moreover have "1.44 * (d ^ 2 * (?n - 1) / ?n ^ 2) \<le> e ^ 2"
  proof -
    have "1.44 * (d ^ 2 * (?n - 1) / ?n ^ 2) = (d ^ 2 * (?n - 1) / ?n ^ 2) * 1.44" by simp
    also have "\<dots> \<le> (d ^ 2 * (?n - 1) / ?n ^ 2) * (?n - 1)"
      using n by (intro mult_left_mono) simp_all
    also have "\<dots> = e ^ 2" by (simp add: e_def power2_eq_square)
    finally show ?thesis .
  qed
  ultimately have "1.44 * population_variance (xs[i := xs ! i + d]) \<le> (a + e) ^ 2"
    unfolding population_variance_update [OF i] a_def [symmetric]
    using aV by (simp add: power2_sum algebra_simps)
  then have "sqrt (1.44 * population_variance (xs[i := xs ! i + d])) \<le> sqrt ((a + e) ^ 2)"
    by (rule real_sqrt_le_mono)
  moreover have "sqrt (1.44 * population_variance (xs[i := xs ! i + d]))
                   = 1.2 * population_std_dev (xs[i := xs ! i + d])"
  proof -
    have r: "sqrt (1.44::real) = 1.2"
      by (rule real_sqrt_unique) (simp_all add: power2_eq_square)
    show ?thesis
      unfolding population_std_dev_def real_sqrt_mult r ..
  qed
  moreover have "sqrt ((a + e) ^ 2) = a + e" using a0 e0 by simp
  ultimately have "1.2 * population_std_dev (xs[i := xs ! i + d]) \<le> a + e" by simp
  moreover have "xs ! i + d - population_mean (xs[i := xs ! i + d]) = a + e"
  proof -
    have "xs \<noteq> []" using i by auto
    then have "d - d / ?n = e" by (simp add: e_def field_simps)
    then show ?thesis
      unfolding population_mean_update [OF i] a_def by linarith
  qed
  ultimately show ?thesis by linarith
qed

lemma population_variance_single: "population_variance [x] = 0"
  by (simp add: population_variance_def population_mean_def)

lemma flag_kept_one_bin:
  assumes "length xs = 1" and "i < length xs"
  shows "population_mean (xs[i := v]) + 1.2 * population_std_dev (xs[i := v]) \<le> v"
proof -
  from assms obtain x where "xs = [x]" "i = 0"
    by (cases xs) auto
  then show ?thesis
    by (simp add: population_std_dev_def population_variance_single population_mean_def)
qed

lemma flagged_iff:
  "i < length bins \<Longrightarrow>
     chartData bins ! i \<in> set (peakBins (stats (chartData bins) clicks ts))
       \<longleftrightarrow> stats_result.threshold (stats (chartData bins) clicks ts) \<le> click_count (bins ! i)"
  by (simp add: stats_peakBins count_chartData_nth chartData_def)

lemma counts_update:
  "i < length bins \<Longrightarrow>
     map click_count (bins[i := (bins ! i)\<lparr> click_count := c' \<rparr>])
       = (map click_count bins)[i := map click_count bins ! i + (c' - click_count (bins ! i))]"
  by (simp add: map_update)

text \<open>C4, as the code has it. Raise the click count of bin \<open>i\<close> and keep the others.
  If the count of bin \<open>i\<close> was at or above the mean, the threshold does not decrease;
  so it is whenever bin \<open>i\<close> was flagged. If the number of bins is not two and bin \<open>i\<close>
  was flagged, it is still flagged.\<close>

theorem C4_raise_one_bin:
  assumes i: "i < length bins" and c': "click_count (bins ! i) \<le> c'"
  shows "(mean (stats (chartData bins) clicks ts) \<le> click_count (bins ! i) \<longrightarrow>
            stats_result.threshold (stats (chartData bins) clicks ts)
              \<le> stats_result.threshold (stats (chartData (bins[i := (bins ! i)\<lparr> click_count := c' \<rparr>])) clicks' ts'))
       \<and> (chartData bins ! i \<in> set (peakBins (stats (chartData bins) clicks ts)) \<longrightarrow>
            stats_result.threshold (stats (chartData bins) clicks ts)
              \<le> stats_result.threshold (stats (chartData (bins[i := (bins ! i)\<lparr> click_count := c' \<rparr>])) clicks' ts'))
       \<and> (length bins \<noteq> 2 \<longrightarrow>
            chartData bins ! i \<in> set (peakBins (stats (chartData bins) clicks ts)) \<longrightarrow>
            chartData (bins[i := (bins ! i)\<lparr> click_count := c' \<rparr>]) ! i
              \<in> set (peakBins (stats (chartData (bins[i := (bins ! i)\<lparr> click_count := c' \<rparr>])) clicks' ts')))"
proof -
  let ?xs = "map click_count bins"
  let ?d = "c' - click_count (bins ! i)"
  let ?bins' = "bins[i := (bins ! i)\<lparr> click_count := c' \<rparr>]"
  have ne: "bins \<noteq> []" "?bins' \<noteq> []" using i by auto
  have ix: "i < length ?xs" using i by simp
  have d: "0 \<le> ?d" using c' by simp
  have xi: "?xs ! i = click_count (bins ! i)" using i by simp
  have xs': "map click_count ?bins' = ?xs[i := ?xs ! i + ?d]"
    by (rule counts_update [OF i])
  have i': "i < length ?bins'" using i by simp
  have ci': "click_count (?bins' ! i) = ?xs ! i + ?d" using i by simp
  have A: "stats_result.threshold (stats (chartData bins) clicks ts)
              \<le> stats_result.threshold (stats (chartData ?bins') clicks' ts')"
    if "mean (stats (chartData bins) clicks ts) \<le> click_count (bins ! i)"
  proof -
    from that have "population_mean ?xs \<le> ?xs ! i"
      using ne i by (simp add: stats_mean counts_chartData chartData_Nil)
    from threshold_mono_above_mean [OF ix d this] show ?thesis
      unfolding stats_threshold_pop xs' using ne by simp
  qed
  have B: "chartData ?bins' ! i \<in> set (peakBins (stats (chartData ?bins') clicks' ts'))"
    if n: "length bins \<noteq> 2"
      and fl: "chartData bins ! i \<in> set (peakBins (stats (chartData bins) clicks ts))"
  proof -
    from fl have f: "population_mean ?xs + 1.2 * population_std_dev ?xs \<le> ?xs ! i"
      unfolding flagged_iff [OF i] stats_threshold_pop using ne i by simp
    have "population_mean (?xs[i := ?xs ! i + ?d]) + 1.2 * population_std_dev (?xs[i := ?xs ! i + ?d])
            \<le> ?xs ! i + ?d"
    proof (cases "length bins = 1")
      case True
      then show ?thesis using flag_kept_one_bin [of ?xs i "?xs ! i + ?d"] ix by simp
    next
      case False
      with n i have "3 \<le> length ?xs" by simp
      from flag_kept_three_bins [OF ix this d f] show ?thesis .
    qed
    then show ?thesis
      unfolding flagged_iff [OF i'] stats_threshold_pop xs' ci' using ne by simp
  qed
  have C: "stats_result.threshold (stats (chartData bins) clicks ts)
              \<le> stats_result.threshold (stats (chartData ?bins') clicks' ts')"
    if fl: "chartData bins ! i \<in> set (peakBins (stats (chartData bins) clicks ts))"
  proof -
    have "0 \<le> stdDev (stats (chartData bins) clicks ts)"
      by (simp add: stats_stdDev population_std_dev_nonneg)
    moreover from fl have "stats_result.threshold (stats (chartData bins) clicks ts) \<le> click_count (bins ! i)"
      unfolding flagged_iff [OF i] .
    ultimately have "mean (stats (chartData bins) clicks ts) \<le> click_count (bins ! i)"
      unfolding stats_threshold by linarith
    then show ?thesis by (rule A)
  qed
  show ?thesis using A B C by blast
qed

text \<open>Five bins with 0, 0, 0, 0 and 5 clicks: mean 1, deviation 2, threshold 3.4, the
  last bin flagged. Raised to 10 clicks it stays flagged and the threshold does not
  drop.\<close>

theorem C4_raise_one_bin_witness:
  "(4::nat) < length [sample_bin 0 0 0 0, sample_bin 1 0 0 0, sample_bin 2 0 0 0, sample_bin 3 0 0 0, sample_bin 4 5 2 50]
   \<and> click_count ([sample_bin 0 0 0 0, sample_bin 1 0 0 0, sample_bin 2 0 0 0, sample_bin 3 0 0 0, sample_bin 4 5 2 50] ! 4) \<le> 10
   \<and> length [sample_bin 0 0 0 0, sample_bin 1 0 0 0, sample_bin 2 0 0 0, sample_bin 3 0 0 0, sample_bin 4 5 2 50] \<noteq> 2
   \<and> chartData [sample_bin 0 0 0 0, sample_bin 1 0 0 0, sample_bin 2 0 0 0, sample_bin 3 0 0 0, sample_bin 4 5 2 50] ! 4
       \<in> set (peakBins (stats (chartData
            [sample_bin 0 0 0 0, sample_bin 1 0 0 0, sample_bin 2 0 0 0, sample_bin 3 0 0 0, sample_bin 4 5 2 50])
            ([]::unit list) 4))
   \<and> stats_result.threshold (stats (chartData
            [sample_bin 0 0 0 0, sample_bin 1 0 0 0, sample_bin 2 0 0 0, sample_bin 3 0 0 0, sample_bin 4 5 2 50])
            ([]::unit list) 4)
       \<le> stats_result.threshold (stats (chartData
            [sample_bin 0 0 0 0, sample_bin 1 0 0 0, sample_bin 2 0 0 0, sample_bin 3 0 0 0, sample_bin 4 10 2 50])
            ([]::unit list) 4)
   \<and> chartData [sample_bin 0 0 0 0, sample_bin 1 0 0 0, sample_bin 2 0 0 0, sample_bin 3 0 0 0, sample_bin 4 10 2 50] ! 4
       \<in> set (peakBins (stats (chartData
            [sample_bin 0 0 0 0, sample_bin 1 0 0 0, sample_bin 2 0 0 0, sample_bin 3 0 0 0, sample_bin 4 10 2 50])
            ([]::unit list) 4))"
proof -
  let ?bins = "[sample_bin 0 0 0 0, sample_bin 1 0 0 0, sample_bin 2 0 0 0, sample_bin 3 0 0 0, sample_bin 4 5 2 50]"
  let ?st = "stats (chartData ?bins) ([]::unit list) 4"
  have i: "(4::nat) < length ?bins" by simp
  have c: "click_count (?bins ! 4) \<le> 10" by simp
  have n: "length ?bins \<noteq> 2" by simp
  have m: "mean ?st = 1"
    by (simp add: stats_def chartData_def Let_def)
  have t: "stats_result.threshold ?st = 17 / 5"
    by (simp add: stats_def chartData_def Let_def)
  have f: "chartData ?bins ! 4 \<in> set (peakBins ?st)"
    unfolding flagged_iff [OF i] t by simp
  have a: "mean ?st \<le> click_count (?bins ! 4)"
    unfolding m by simp
  have u: "?bins[4 := (?bins ! 4)\<lparr> click_count := 10 \<rparr>]
             = [sample_bin 0 0 0 0, sample_bin 1 0 0 0, sample_bin 2 0 0 0, sample_bin 3 0 0 0, sample_bin 4 10 2 50]"
    by simp
  from C4_raise_one_bin [OF i c, of "[]::unit list" 4 "[]::unit list" 4] a n f
  show ?thesis unfolding u using i c n f by blast
qed

text \<open>The claim as the specification words it fails twice. With bins of 0 and 2
  clicks the threshold is 2.2; raising the first bin to 2 clicks lowers it to 2. With
  two bins of 2 clicks both are flagged (threshold 2); raising the second to 3 clicks
  moves the threshold to 3.1 and the bin is no longer flagged.\<close>

theorem C4_monotonicity_counterexample:
  "stats_result.threshold
      (stats (chartData ([sample_bin 0 0 0 0, sample_bin 1 2 2 50]
                          [0 := ([sample_bin 0 0 0 0, sample_bin 1 2 2 50] ! 0)\<lparr> click_count := 2 \<rparr>]))
             ([]::unit list) 4)
     < stats_result.threshold
        (stats (chartData [sample_bin 0 0 0 0, sample_bin 1 2 2 50]) ([]::unit list) 4)
   \<and> chartData [sample_bin 0 2 2 50, sample_bin 1 2 2 50] ! 1
       \<in> set (peakBins (stats (chartData [sample_bin 0 2 2 50, sample_bin 1 2 2 50]) ([]::unit list) 4))
   \<and> chartData ([sample_bin 0 2 2 50, sample_bin 1 2 2 50]
                   [1 := ([sample_bin 0 2 2 50, sample_bin 1 2 2 50] ! 1)\<lparr> click_count := 3 \<rparr>]) ! 1
       \<notin> set (peakBins (stats (chartData ([sample_bin 0 2 2 50, sample_bin 1 2 2 50]
                   [1 := ([sample_bin 0 2 2 50, sample_bin 1 2 2 50] ! 1)\<lparr> click_count := 3 \<rparr>])) ([]::unit list) 4))"
proof -
  have r: "sqrt (1 / 4) = 1 / 2" by (simp add: real_sqrt_divide)
  show ?thesis
    by (simp add: stats_def chartData_def Let_def power2_eq_square r)
qed

section \<open>The notes of the dashboard\<close>

lemma minutesElapsed_notes:
  "a \<in> set (notesWithTimestamps parse session notes) \<Longrightarrow>
     minutesElapsed a = \<lfloor>real_of_int (parse (created_at a) - parse (start_time session)) / 60000\<rfloor>"
  by (auto simp add: notesWithTimestamps_def Let_def)

lemma floor_div_60000: "\<lfloor>real_of_int k / 60000\<rfloor> = k div 60000"
  using floor_divide_of_int_eq [of k 60000, where ?'a = real] by simp

lemma truncate_notes:
  "map NoteRecord.truncate
     (map (\<lambda>n. \<lparr> anon_id = anon_id n, note_text = note_text n, created_at = created_at n,
                 minutesElapsed = f n \<rparr>) ns) = ns"
  by (induction ns) (simp_all add: NoteRecord.truncate_def)

text \<open>C5. For every list of notes and every session, each note shown carries
  minutesElapsed = floor((timestamp of the note - start of the session) / 60000), the
  notes shown are the notes given (each once more with that annotation), and they are
  in ascending order of minutesElapsed.\<close>

theorem C5_notes_sorted_by_minutes:
  "sorted (map minutesElapsed (notesWithTimestamps parse session notes))
   \<and> (\<forall>a \<in> set (notesWithTimestamps parse session notes).
         minutesElapsed a = \<lfloor>real_of_int (parse (created_at a) - parse (start_time session)) / 60000\<rfloor>)
   \<and> mset (map NoteRecord.truncate (notesWithTimestamps parse session notes)) = mset notes"
proof (intro conjI ballI)
  show "sorted (map minutesElapsed (notesWithTimestamps parse session notes))"
    by (simp add: notesWithTimestamps_def Let_def)
next
  fix a assume "a \<in> set (notesWithTimestamps parse session notes)"
  then show "minutesElapsed a = \<lfloor>real_of_int (parse (created_at a) - parse (start_time session)) / 60000\<rfloor>"
    by (rule minutesElapsed_notes)
next
  let ?f = "\<lambda>n. \<lfloor>real_of_int (parse (created_at n) - parse (start_time session)) / 60000\<rfloor>"
  let ?ann = "map (\<lambda>n. \<lparr> anon_id = anon_id n, note_text = note_text n, created_at = created_at n,
                 minutesElapsed = ?f n \<rparr>) notes"
  have "mset (map NoteRecord.truncate (sort_key minutesElapsed ?ann)) = mset (map NoteRecord.truncate ?ann)"
    by (simp only: mset_map mset_sort)
  also have "\<dots> = mset notes"
    by (simp only: truncate_notes)
  finally show "mset (map NoteRecord.truncate (notesWithTimestamps parse session notes)) = mset notes"
    by (simp add: notesWithTimestamps_def Let_def)
qed

text \<open>Three notes, written 7.5 minutes and 130 seconds after the start and 30 seconds
  before it: they come out at minutes -1, 2 and 7.\<close>

theorem C5_notes_sorted_by_minutes_witness:
  "\<lparr> anon_id = 3, note_text = ''early'', created_at = ''2025-01-01T09:59:30.000Z'', minutesElapsed = - 1 \<rparr>
     \<in> set (notesWithTimestamps sample_parse sample_meta
        [\<lparr> anon_id = 3, note_text = ''lost at example 2'', created_at = ''2025-01-01T10:07:30.000Z'' \<rparr>,
         \<lparr> anon_id = 5, note_text = ''what is a closure'', created_at = ''2025-01-01T10:02:10.000Z'' \<rparr>,
         \<lparr> anon_id = 3, note_text = ''early'', created_at = ''2025-01-01T09:59:30.000Z'' \<rparr>])
   \<and> \<lfloor>real_of_int (sample_parse ''2025-01-01T09:59:30.000Z'' - sample_parse (start_time sample_meta)) / 60000\<rfloor> = - 1
   \<and> map minutesElapsed (notesWithTimestamps sample_parse sample_meta
        [\<lparr> anon_id = 3, note_text = ''lost at example 2'', created_at = ''2025-01-01T10:07:30.000Z'' \<rparr>,
         \<lparr> anon_id = 5, note_text = ''what is a closure'', created_at = ''2025-01-01T10:02:10.000Z'' \<rparr>,
         \<lparr> anon_id = 3, note_text = ''early'', created_at = ''2025-01-01T09:59:30.000Z'' \<rparr>]) = [- 1, 2, 7]
   \<and> sorted (map minutesElapsed (notesWithTimestamps sample_parse sample_meta
        [\<lparr> anon_id = 3, note_text = ''lost at example 2'', created_at = ''2025-01-01T10:07:30.000Z'' \<rparr>,
         \<lparr> anon_id = 5, note_text = ''what is a closure'', created_at = ''2025-01-01T10:02:10.000Z'' \<rparr>,
         \<lparr> anon_id = 3, note_text = ''early'', created_at = ''2025-01-01T09:59:30.000Z'' \<rparr>]))"
proof -
  let ?ns = "[\<lparr> anon_id = 3, note_text = ''lost at example 2'', created_at = ''2025-01-01T10:07:30.000Z'' \<rparr>,
         \<lparr> anon_id = 5, note_text = ''what is a closure'', created_at = ''2025-01-01T10:02:10.000Z'' \<rparr>,
         \<lparr> anon_id = 3, note_text = ''early'', created_at = ''2025-01-01T09:59:30.000Z'' \<rparr>]"
  have r: "notesWithTimestamps sample_parse sample_meta ?ns =
      [\<lparr> anon_id = 3, note_text = ''early'', created_at = ''2025-01-01T09:59:30.000Z'', minutesElapsed = - 1 \<rparr>,
       \<lparr> anon_id = 5, note_text = ''what is a closure'', created_at = ''2025-01-01T10:02:10.000Z'', minutesElapsed = 2 \<rparr>,
       \<lparr> anon_id = 3, note_text = ''lost at example 2'', created_at = ''2025-01-01T10:07:30.000Z'', minutesElapsed = 7 \<rparr>]"
    by (simp add: notesWithTimestamps_def)
  have m: "\<lparr> anon_id = 3, note_text = ''early'', created_at = ''2025-01-01T09:59:30.000Z'', minutesElapsed = - 1 \<rparr>
     \<in> set (notesWithTimestamps sample_parse sample_meta ?ns)"
    unfolding r by simp
  from C5_notes_sorted_by_minutes [of sample_parse sample_meta ?ns] m
  have "sorted (map minutesElapsed (notesWithTimestamps sample_parse sample_meta ?ns))
      \<and> \<lfloor>real_of_int (sample_parse ''2025-01-01T09:59:30.000Z'' - sample_parse (start_time sample_meta)) / 60000\<rfloor> = - 1"
    by fastforce
  with m r show ?thesis by simp
qed

section \<open>Peak Confusion\<close>

lemma Max_insert_max:
  fixes a x :: real
  assumes "finite S"
  shows "Max (insert (max a x) S) = Max (insert a (insert x S))"
proof (cases "S = {}")
  case True
  then show ?thesis by (simp add: max.commute)
next
  case False
  with assms show ?thesis by (simp add: max.assoc)
qed

lemma Math_max_from_Finite:
  "foldl (\<lambda>highest x. if ext_less highest (Finite x) then Finite x else highest) (Finite a) xs
     = Finite (Max (insert a (set xs)))"
proof (induction xs arbitrary: a)
  case Nil
  then show ?case by simp
next
  case (Cons x xs)
  have step: "(if ext_less (Finite a) (Finite x) then Finite x else Finite a) = Finite (max a x)"
    by (simp add: max_def)
  show ?case
    unfolding foldl_Cons step Cons.IH list.set
    by (simp only: Max_insert_max [OF finite_set])
qed

lemma Math_max_Nil: "Math_max [] = NegInfinity"
  by (simp add: Math_max_def)

lemma Math_max_nonempty: "xs \<noteq> [] \<Longrightarrow> Math_max xs = Finite (Max (set xs))"
  by (cases xs) (simp_all add: Math_max_def Math_max_from_Finite)

text \<open>C6. When the session has bins, the Peak Confusion statistic of the summary is the
  maximum of the percentages of all its bins.\<close>

theorem C6_peak_confusion_is_max:
  assumes "bins \<noteq> []"
  shows "map_option peakConfusion (summary (Some m) bins n)
           = Some (Finite (Max (BinRecord.percentage ` set bins)))"
proof -
  have "map summary_point.percentage
          (map (\<lambda>b. \<lparr> minute = bin_start_minute b,
                       count = click_count b,
                       label = show_int (bin_start_minute b) @ ''-'' @ show_int (bin_end_minute b),
                       uniqueStudents = unique_students b,
                       percentage = BinRecord.percentage b \<rparr>) bins)
        = map BinRecord.percentage bins"
    by (simp add: comp_def)
  with assms show ?thesis
    by (simp add: summary_Some peakConfusion_def Math_max_nonempty)
qed

text \<open>Three bins in which 25, 75 and 50 percent of the class clicked: the peak is 75.\<close>

theorem C6_peak_confusion_is_max_witness:
  "[sample_bin 0 1 1 25, sample_bin 1 4 3 75, sample_bin 2 2 2 50] \<noteq> []
   \<and> map_option peakConfusion
         (summary (Some sample_meta) [sample_bin 0 1 1 25, sample_bin 1 4 3 75, sample_bin 2 2 2 50] 4)
       = Some (Finite 75)"
  using C6_peak_confusion_is_max [of "[sample_bin 0 1 1 25, sample_bin 1 4 3 75, sample_bin 2 2 2 50]" sample_meta 4]
  by simp

text \<open>C10. When the summary has no bins, the Peak Confusion statistic is the maximum of
  nothing: minus infinity, not 0, and no error.\<close>

theorem C10_peak_confusion_no_bins:
  "map_option peakConfusion (summary (Some m) [] n) = Some NegInfinity
   \<and> map_option peakConfusion (summary (Some m) [] n) \<noteq> Some (Finite 0)"
  by (simp add: summary_def Let_def peakConfusion_def Math_max_Nil)

section \<open>The join form\<close>

lemma code_handleInputChange:
  "length (code (handleInputChange v st)) \<le> 4 \<and> (\<forall>c \<in> set (code (handleInputChange v st)). is_digit c)"
  by (auto simp add: handleInputChange_def Let_def dest: in_set_takeD)

lemma code_handleSubmit: "code (fst (handleSubmit st res)) = code st"
  by (simp add: handleSubmit_def Let_def split: fetch_result.splits)

lemma handleSubmit_short: "length (code st) \<noteq> 4 \<Longrightarrow> snd (handleSubmit st res) = []"
  by (simp add: handleSubmit_def Let_def)

lemma handleSubmit_effects:
  "e \<in> set (snd (handleSubmit st res)) \<Longrightarrow> e = Fetch m u b \<Longrightarrow>
     u = join_url (code st) \<and> length (code st) = 4 \<and> m = POST \<and> b = NoBody"
  by (auto simp add: handleSubmit_def Let_def split: fetch_result.splits if_splits)

lemma join_inv_step:
  assumes inv: "join_inv p"
  shows "join_inv (join_step p ev)"
proof (cases p)
  case (Pair st acc)
  show ?thesis
  proof (cases ev)
    case (InputChange v)
    with inv Pair show ?thesis
      using code_handleInputChange [of v st] by (simp add: join_inv_def)
  next
    case (Submit res)
    obtain st' effs where h: "handleSubmit st res = (st', effs)" by (cases "handleSubmit st res")
    have c: "code st' = code st" using code_handleSubmit [of st res] h by simp
    have e: "\<forall>e \<in> set effs. \<forall>m u b. e = Fetch m u b \<longrightarrow>
           (\<exists>c. u = join_url c \<and> length c = 4 \<and> (\<forall>x \<in> set c. is_digit x) \<and> m = POST \<and> b = NoBody)"
    proof (intro ballI allI impI)
      fix e m u b assume "e \<in> set effs" "e = Fetch m u b"
      with handleSubmit_effects [of e st res m u b] h
      have "u = join_url (code st) \<and> length (code st) = 4 \<and> m = POST \<and> b = NoBody" by simp
      moreover have "\<forall>x \<in> set (code st). is_digit x" using inv Pair by (simp add: join_inv_def)
      ultimately show "\<exists>c. u = join_url c \<and> length c = 4 \<and> (\<forall>x \<in> set c. is_digit x) \<and> m = POST \<and> b = NoBody"
        by blast
    qed
    from inv Pair Submit h c e show ?thesis
      by (auto simp add: join_inv_def)
  qed
qed

lemma join_inv_foldl: "join_inv p \<Longrightarrow> join_inv (foldl join_step p events)"
  by (induction events arbitrary: p) (simp_all add: join_inv_step)

lemma join_inv_initial: "join_inv (join_initial, [])"
  by (simp add: join_inv_def join_initial_def)

text \<open>C8. Whatever the user types and however often the form is submitted, the code
  field holds at most four characters, all decimal digits; every request the form has
  sent went to the join URL of a code of exactly four digits; and a submission with a
  code that is not four characters long sends nothing and shows the message that the
  code must be 4 digits.\<close>

theorem C8_join_code_shape:
  "length (code (fst (join_run events))) \<le> 4
   \<and> (\<forall>c \<in> set (code (fst (join_run events))). is_digit c)
   \<and> (\<forall>e \<in> set (snd (join_run events)). \<forall>m u b. e = Fetch m u b \<longrightarrow>
         (\<exists>c. u = join_url c \<and> length c = 4 \<and> (\<forall>x \<in> set c. is_digit x)))
   \<and> (\<forall>st res. length (code st) \<noteq> 4 \<longrightarrow>
         snd (handleSubmit st res) = [] \<and> error (fst (handleSubmit st res)) = ''Session code must be 4 digits'')"
proof -
  have "join_inv (join_run events)"
    unfolding join_run_def by (rule join_inv_foldl [OF join_inv_initial])
  then show ?thesis
    by (simp add: join_inv_def handleSubmit_def Let_def) blast
qed

text \<open>The user types a code with a dash and a fifth digit and submits: the field holds
  1234 and one join request for 1234 goes out. A submission with the code 12 sends
  nothing.\<close>

theorem C8_join_code_shape_witness:
  "code (fst (join_run [InputChange ''12-34 5'', Submit (Response True ())])) = ''1234''
   \<and> snd (join_run [InputChange ''12-34 5'', Submit (Response True ())])
       = [Fetch POST ''https://crowdqa-hxre.onrender.com/api/sessions/1234/join'' NoBody, OnJoinSuccess ()]
   \<and> length (code \<lparr> code = ''12'', error = [] \<rparr>) \<noteq> 4
   \<and> snd (handleSubmit \<lparr> code = ''12'', error = [] \<rparr> (Response True ())) = []"
  using C8_join_code_shape [of "[InputChange ''12-34 5'', Submit (Response True ())]"]
  by (simp add: join_run_def join_initial_def handleInputChange_def handleSubmit_def is_digit_def
      join_url_def Let_def)

section \<open>The student's button\<close>

text \<open>C9. While the polled flag \<open>active\<close> is false, a click on the confusion button only
  shows an alert: the handler returns the state unchanged, performs no \<^verbatim>\<open>fetch\<close> and
  does not call \<^verbatim>\<open>onConfusionClick\<close>; and the button is disabled. A poll that reads
  \<^verbatim>\<open>is_active: false\<close> makes the flag false.\<close>

theorem C9_inactive_click_sends_nothing:
  assumes "\<not> active st"
  shows "(handleConfusionClick st session clickRes noteRes :: student_state \<times> 'd effect list)
           = (st, [Alert ''Session is not active. You cannot submit feedback yet.''])
       \<and> (\<forall>e \<in> set (snd (handleConfusionClick st session clickRes noteRes :: student_state \<times> 'd effect list)).
             (\<forall>m u b. e \<noteq> Fetch m u b) \<and> (\<forall>k. e \<noteq> OnConfusionClick k))
       \<and> button_disabled st
       \<and> (\<forall>st0. \<not> active (check st0 (Response True (Some False))))"
  using assms by (simp add: handleConfusionClick_def button_disabled_def check_def)

text \<open>A student whose first poll reads \<^verbatim>\<open>is_active: false\<close> clicks: one alert, nothing
  sent, whatever the server would have answered.\<close>

theorem C9_inactive_click_sends_nothing_witness:
  "\<not> active (check (student_initial None) (Response True (Some False)))
   \<and> handleConfusionClick (check (student_initial None) (Response True (Some False))) sample_student
         (Response True \<lparr> error_message = None, student_click_count = 3 \<rparr>) (Response True ())
       = (check (student_initial None) (Response True (Some False)),
          [Alert ''Session is not active. You cannot submit feedback yet.''] :: unit effect list)
   \<and> button_disabled (check (student_initial None) (Response True (Some False)))"
proof -
  have a: "\<not> active (check (student_initial None) (Response True (Some False)))"
    by (simp add: check_def)
  from C9_inactive_click_sends_nothing [where ?'d = unit, OF a, of sample_student
      "Response True \<lparr> error_message = None, student_click_count = 3 \<rparr>" "Response True ()"]
    a show ?thesis by simp
qed

section \<open>Starting a session\<close>

text \<open>What the creator form holds before the session is started: a session whose start
  time is midnight of the chosen date; and nothing new when the date is not one.\<close>

lemma handleGenerate_start_time:
  assumes "newDate (date st @ ''T00:00:00Z'') = Some t"
    and "parseInt (duration st) = Some m"
    and "toISOString t = Some start_iso"
    and "toISOString (t + m * 60000) = Some end_iso"
  shows "map_option start_time
           (generatedSession (fst (handleGenerate parseInt newDate toISOString st (Response True d))))
         = Some start_iso"
  using assms by (simp add: handleGenerate_def Let_def)

lemma handleGenerate_invalid_date:
  assumes "newDate (date st @ ''T00:00:00Z'') = None"
  shows "handleGenerate parseInt newDate toISOString st (Response True d)
           = (st, [Fetch POST sessions_url
                     (CreateSession (courseName st) (date st) (parseInt (duration st)) (taName st)),
                   ConsoleError, Alert ''Error creating session.''])"
  using assms by (simp add: handleGenerate_def Let_def split: option.splits)













end
